theory Spec2Isabelle
  imports Main "HOL-Library.Word"
begin

section \<open>Boot-image acquisition and validation: init/hss_boot_init.c\<close>

text \<open>
  A shallow embedding of \<^verbatim>\<open>hss_boot_init.c\<close>. Memory is a store of image headers
  indexed by address; the drivers, the partition-table parser, the decompressor, the CRC
  routine and the launch services are parameters, since the file only calls them. Every
  call of such a collaborator and every diagnostic print is recorded in a trace, so that
  what an execution did (and in which order) can be stated.
\<close>

subsection \<open>Data\<close>

type_synonym u8 = "8 word"
type_synonym u32 = "32 word"
type_synonym u64 = "64 word"
type_synonym addr = "64 word"

text \<open>
  Modelled from the spec: \<^verbatim>\<open>struct HSS_BootImage\<close> is declared in \<^verbatim>\<open>hss_types.h\<close>,
  which is not among the sources. The four members below are those the data model of the
  spec lists and the code reads; any further member of the structure lives in the
  extension part of the record (every statement below is over
  \<open>'x HSS_BootImage_scheme\<close>).
\<close>

record HSS_BootImage =
  magic :: u32
  headerCrc :: u32
  bootImageLength :: u64
  set_name :: "u8 list"

definition NULL :: addr where
  "NULL = 0"

datatype LogLevel = LOG_NORMAL | LOG_ERROR

text \<open>
  Modelled from the spec: the status type of \<^verbatim>\<open>HSS_Boot_RestartCore\<close> is declared
  elsewhere; the code only compares it with \<^verbatim>\<open>IPI_SUCCESS\<close>.
\<close>

datatype IPIStatusCode = IPI_SUCCESS | IPI_FAIL

text \<open>The four functions the pointer \<^verbatim>\<open>getBootImageFunction\<close> can hold.\<close>

datatype BootSource = FromSpiFlash | FromMMC | FromQSPI | FromPayload

datatype event =
    Log LogLevel string
  | Call_HSS_MMC_ReadBlock addr u64 u64 bool
  | Call_HSS_QSPI_ReadBlock addr u64 u64 bool
  | Call_MSS_SYS_spi_copy addr u64 u64 u32
  | Call_MSS_SYS_select_service_mode
  | Call_GPT_RegisterReadBlockFunction
  | Call_GPT_ReadHeader bool
  | Call_GPT_ValidateHeader bool
  | Call_GPT_ValidatePartitionEntries bool
  | Call_GPT_FindPartitionByTypeId bool u64 u64
  | Call_CRC32_calculate addr u64 u32
  | Call_HSS_Decompress addr addr u32
  | Call_HSS_Register_Boot_Image addr
  | Call_HSS_Boot_RestartCore IPIStatusCode
  | Call_HSS_Boot_Custom bool

type_synonym 'x memory = "addr \<Rightarrow> 'x HSS_BootImage_scheme"

text \<open>What a collaborator can read and change: memory and the devices behind it.\<close>

type_synonym ('x, 'w) mach = "'x memory \<times> 'w"

record ('x, 'w) state =
  heap :: "'x memory"
  dev :: 'w
  getBootImageFunction :: BootSource
  events :: "event list"

text \<open>
  The constants of \<^verbatim>\<open>config.h\<close>, \<^verbatim>\<open>hss_types.h\<close> and the linker script. None
  of them is defined in the file itself, so they are parameters. \<open>bootImage\<close> is the
  address of the file's global scratch header, \<open>payload_start\<close> that of
  \<^verbatim>\<open>_payload_start\<close>.
\<close>

record config =
  mHSS_BOOT_MAGIC :: u32
  mHSS_COMPRESSED_MAGIC :: u32
  sizeof_HSS_BootImage :: u64
  GPT_LBA_SIZE :: u64
  CONFIG_SERVICE_BOOT :: bool
  CONFIG_COMPRESSION :: bool
  CONFIG_SERVICE_BOOT_CUSTOM_FLOW :: bool
  CONFIG_SERVICE_BOOT_MMC_USE_GPT :: bool
  CONFIG_SERVICE_QSPI_USE_XIP :: bool
  BOOT_DEBUG :: bool
  CONFIG_SERVICE_BOOT_DDR_TARGET_ADDR :: addr
  CONFIG_SERVICE_BOOT_SPI_FLASH_OFFSET :: u64
  QSPI_BASE :: addr
  payload_start :: addr
  bootImage :: addr

text \<open>
  The collaborators. A block-read primitive takes destination, offset and byte count;
  \<^verbatim>\<open>CRC32_calculate\<close> takes a pointer and a length and only reads memory. The
  partition-table functions work on the stack buffer of the caller, which is part of
  what \<open>'w\<close> stands for.
\<close>

record ('x, 'w) platform =
  CRC32_calculate :: "'x memory \<Rightarrow> addr \<Rightarrow> u64 \<Rightarrow> u32"
  HSS_MMC_ReadBlock :: "addr \<Rightarrow> u64 \<Rightarrow> u64 \<Rightarrow> ('x, 'w) mach \<Rightarrow> bool \<times> ('x, 'w) mach"
  HSS_QSPI_ReadBlock :: "addr \<Rightarrow> u64 \<Rightarrow> u64 \<Rightarrow> ('x, 'w) mach \<Rightarrow> bool \<times> ('x, 'w) mach"
  MSS_SYS_spi_copy :: "addr \<Rightarrow> u64 \<Rightarrow> u64 \<Rightarrow> ('x, 'w) mach \<Rightarrow> u32 \<times> ('x, 'w) mach"
  MSS_SYS_select_service_mode :: "('x, 'w) mach \<Rightarrow> unit \<times> ('x, 'w) mach"
  GPT_RegisterReadBlockFunction :: "('x, 'w) mach \<Rightarrow> unit \<times> ('x, 'w) mach"
  GPT_ReadHeader :: "('x, 'w) mach \<Rightarrow> bool \<times> ('x, 'w) mach"
  GPT_ValidateHeader :: "('x, 'w) mach \<Rightarrow> bool \<times> ('x, 'w) mach"
  GPT_ValidatePartitionEntries :: "('x, 'w) mach \<Rightarrow> bool \<times> ('x, 'w) mach"
  GPT_FindPartitionByTypeId :: "('x, 'w) mach \<Rightarrow> (bool \<times> u64 \<times> u64) \<times> ('x, 'w) mach"
  HSS_Decompress :: "addr \<Rightarrow> addr \<Rightarrow> ('x, 'w) mach \<Rightarrow> u32 \<times> ('x, 'w) mach"
  HSS_Register_Boot_Image :: "addr \<Rightarrow> ('x, 'w) mach \<Rightarrow> unit \<times> ('x, 'w) mach"
  HSS_Boot_RestartCore :: "('x, 'w) mach \<Rightarrow> IPIStatusCode \<times> ('x, 'w) mach"
  HSS_Boot_Custom :: "('x, 'w) mach \<Rightarrow> bool \<times> ('x, 'w) mach"

subsection \<open>Trace and calls\<close>

definition emit :: "event \<Rightarrow> ('x, 'w) state \<Rightarrow> ('x, 'w) state" where
  "emit e s = s\<lparr>events := events s @ [e]\<rparr>"

text \<open>
  A call of a collaborator: it runs on memory and devices, and the trace gets the event
  made from its return value. The function pointer of the file is \<^verbatim>\<open>static\<close>: no
  collaborator can change it.
\<close>

definition call :: "(('x, 'w) mach \<Rightarrow> 'r \<times> ('x, 'w) mach) \<Rightarrow> ('r \<Rightarrow> event) \<Rightarrow>
    ('x, 'w) state \<Rightarrow> 'r \<times> ('x, 'w) state" where
  "call f ev s =
     (case f (heap s, dev s) of
        (r, (h, d)) \<Rightarrow> (r, emit (ev r) (s\<lparr>heap := h, dev := d\<rparr>)))"

text \<open>The events a run added to the trace.\<close>

definition new_events :: "('x, 'w) state \<Rightarrow> ('x, 'w) state \<Rightarrow> event list" where
  "new_events s s' = drop (length (events s)) (events s')"

subsection \<open>Integrity checks\<close>

definition verifyMagic :: "config \<Rightarrow> addr \<Rightarrow> ('x, 'w) state \<Rightarrow> bool \<times> ('x, 'w) state" where
  "verifyMagic cfg pBootImage s =
     (if magic (heap s pBootImage) = mHSS_BOOT_MAGIC cfg
         \<or> magic (heap s pBootImage) = mHSS_COMPRESSED_MAGIC cfg
      then (True, s)
      else (False, emit (Log LOG_ERROR ''magic is %08x vs expected %08x or %08x'') s))"

definition validateCrc :: "config \<Rightarrow> ('x, 'w) platform \<Rightarrow> addr \<Rightarrow> ('x, 'w) state \<Rightarrow>
    bool \<times> ('x, 'w) state" where
  "validateCrc cfg pf pImageHdr s =
     (let originalCrc = headerCrc (heap s pImageHdr);
          s1 = s\<lparr>heap := (heap s)(pImageHdr := (heap s pImageHdr)\<lparr>headerCrc := 0\<rparr>)\<rparr>;
          hdrCrc = CRC32_calculate pf (heap s1) pImageHdr (sizeof_HSS_BootImage cfg);
          s2 = emit (Call_CRC32_calculate pImageHdr (sizeof_HSS_BootImage cfg) hdrCrc) s1;
          result = (hdrCrc = originalCrc);
          s3 = (if result then s2
                else emit (Log LOG_ERROR
                  ''Checked HSS_BootImage header CRC (%p->%p): calculated %08x vs expected %08x'') s2);
          s4 = s3\<lparr>heap := (heap s3)(pImageHdr := (heap s3 pImageHdr)\<lparr>headerCrc := originalCrc\<rparr>)\<rparr>
      in (result, s4))"

definition printBootImageDetails :: "config \<Rightarrow> addr \<Rightarrow> ('x, 'w) state \<Rightarrow> ('x, 'w) state" where
  "printBootImageDetails cfg pBootImage s =
     (if BOOT_DEBUG cfg
      then emit (Log LOG_NORMAL '' - length is   %08X'')
             (emit (Log LOG_NORMAL '' - magic is    %08X'')
               (emit (Log LOG_NORMAL '' - set name is >>%s<<'') s))
      else s)"

subsection \<open>Source readers\<close>

text \<open>
  The type of \<^verbatim>\<open>HSS_BootImageCopyFnPtr_t\<close>, as a function on states. The static
  functions of the file keep their names without the final underscore, which a constant's
  name cannot end with.
\<close>

type_synonym ('x, 'w) copyfn = "addr \<Rightarrow> u64 \<Rightarrow> u64 \<Rightarrow> ('x, 'w) state \<Rightarrow> bool \<times> ('x, 'w) state"

definition copyBootImageToDDR :: "config \<Rightarrow> addr \<Rightarrow> addr \<Rightarrow> u64 \<Rightarrow> ('x, 'w) copyfn \<Rightarrow>
    ('x, 'w) state \<Rightarrow> bool \<times> ('x, 'w) state" where
  "copyBootImageToDDR cfg pBootImage pDest srcOffset pCopyFunction s =
     (let s1 = printBootImageDetails cfg pBootImage s;
          s2 = emit (Log LOG_NORMAL ''Copying %lu bytes to 0x%x'') s1
      in pCopyFunction pDest srcOffset (bootImageLength (heap s2 pBootImage)) s2)"

definition MMC_ReadBlock :: "('x, 'w) platform \<Rightarrow> ('x, 'w) copyfn" where
  "MMC_ReadBlock pf pDest srcOffset byteCount =
     call (HSS_MMC_ReadBlock pf pDest srcOffset byteCount)
       (Call_HSS_MMC_ReadBlock pDest srcOffset byteCount)"

definition QSPI_ReadBlock :: "('x, 'w) platform \<Rightarrow> ('x, 'w) copyfn" where
  "QSPI_ReadBlock pf pDest srcOffset byteCount =
     call (HSS_QSPI_ReadBlock pf pDest srcOffset byteCount)
       (Call_HSS_QSPI_ReadBlock pDest srcOffset byteCount)"

definition spiFlashReadBlock :: "('x, 'w) platform \<Rightarrow> ('x, 'w) copyfn" where
  "spiFlashReadBlock pf dst offs count' s =
     (case call (MSS_SYS_spi_copy pf dst offs count') (Call_MSS_SYS_spi_copy dst offs count') s of
        (retval, s1) \<Rightarrow>
          (retval = 0,
           if retval = 0 then s1
           else emit (Log LOG_ERROR
             ''Failed to read 0x%lx bytes from SPI flash @0x%lx (error code %d)!'') s1))"

text \<open>
  The block under \<^verbatim>\<open>CONFIG_SERVICE_BOOT_MMC_USE_GPT\<close> in \<^verbatim>\<open>getBootImageFromMMC_\<close>:
  it returns the value it leaves in \<^verbatim>\<open>result\<close> and in \<^verbatim>\<open>srcOffset\<close>.
\<close>

definition MMC_GPT_lookup :: "('x, 'w) platform \<Rightarrow> ('x, 'w) state \<Rightarrow> bool \<times> u64 \<times> ('x, 'w) state" where
  "MMC_GPT_lookup pf s =
     (let (u, s1) = call (GPT_RegisterReadBlockFunction pf) (\<lambda>_. Call_GPT_RegisterReadBlockFunction) s;
          (result, s2) = call (GPT_ReadHeader pf) Call_GPT_ReadHeader s1;
          (result, s3) =
            (if result
             then (let (result, s2a) = call (GPT_ValidateHeader pf) Call_GPT_ValidateHeader s2
                   in if result
                      then (let (result, s2b) = call (GPT_ValidatePartitionEntries pf)
                                   Call_GPT_ValidatePartitionEntries s2a
                            in if result then (result, s2b)
                               else (result, emit (Log LOG_ERROR
                                       ''GPT_ValidatePartitionEntries() failed'') s2b))
                      else (result, s2a))
             else (result, s2))
      in if result
         then (let ((result, firstLBA, lastLBA), s4) = call (GPT_FindPartitionByTypeId pf)
                       (\<lambda>(r, f, l). Call_GPT_FindPartitionByTypeId r f l) s3
               in if result then (result, firstLBA, s4)
                  else (result, 0, emit (Log LOG_ERROR ''GPT_FindPartitionByUniqueId() failed'') s4))
         else (result, 0, s3))"

text \<open>
  A reader gets the caller's pointer variable (its current value \<open>pp\<close>) and returns its
  result, the value it leaves in the variable, and the state.
\<close>

definition getBootImageFromMMC :: "config \<Rightarrow> ('x, 'w) platform \<Rightarrow> addr \<Rightarrow> ('x, 'w) state \<Rightarrow>
    bool \<times> addr \<times> ('x, 'w) state" where
  "getBootImageFromMMC cfg pf pp s =
     (let s1 = emit (Log LOG_NORMAL ''Preparing to copy from MMC to DDR ...'') s;
          s2 = emit (Log LOG_NORMAL ''Attempting to read image header (%d bytes) ...'') s1;
          (result, srcOffset, s3) =
            (if CONFIG_SERVICE_BOOT_MMC_USE_GPT cfg then MMC_GPT_lookup pf s2 else (True, 0, s2));
          (result, s4) = MMC_ReadBlock pf (bootImage cfg) (srcOffset * GPT_LBA_SIZE cfg)
                           (sizeof_HSS_BootImage cfg) s3
      in if \<not> result
         then (result, pp, emit (Log LOG_ERROR ''HSS_MMC_ReadBlock() failed'') s4)
         else (let (result, s5) = verifyMagic cfg (bootImage cfg) s4
               in if \<not> result
                  then (result, pp, emit (Log LOG_ERROR ''verifyMagic_() failed'') s5)
                  else (let (result, s6) = copyBootImageToDDR cfg (bootImage cfg)
                                 (CONFIG_SERVICE_BOOT_DDR_TARGET_ADDR cfg)
                                 (srcOffset * GPT_LBA_SIZE cfg) (MMC_ReadBlock pf) s5
                        in (result, CONFIG_SERVICE_BOOT_DDR_TARGET_ADDR cfg,
                            if \<not> result
                            then emit (Log LOG_ERROR ''copyBootImageToDDR_() failed'') s6
                            else s6))))"

text \<open>
  In the branch for \<^verbatim>\<open>CONFIG_SERVICE_QSPI_USE_XIP\<close> the source passes
  \<^verbatim>\<open>**ppBootImage\<close> to \<^verbatim>\<open>verifyMagic_\<close>; the header checked is the one the
  pointer just stored designates.
\<close>

definition getBootImageFromQSPI :: "config \<Rightarrow> ('x, 'w) platform \<Rightarrow> addr \<Rightarrow> ('x, 'w) state \<Rightarrow>
    bool \<times> addr \<times> ('x, 'w) state" where
  "getBootImageFromQSPI cfg pf pp s =
     (if \<not> CONFIG_SERVICE_QSPI_USE_XIP cfg
      then (let s1 = emit (Log LOG_NORMAL ''Preparing to copy from QSPI to DDR ...'') s;
                s2 = emit (Log LOG_NORMAL ''Attempting to read image header (%d bytes) ...'') s1;
                srcOffset = 0;
                (ignored, s3) = QSPI_ReadBlock pf (bootImage cfg) srcOffset
                                  (sizeof_HSS_BootImage cfg) s2;
                (result, s4) = verifyMagic cfg (bootImage cfg) s3
            in if result
               then (let (result, s5) = copyBootImageToDDR cfg (bootImage cfg)
                              (CONFIG_SERVICE_BOOT_DDR_TARGET_ADDR cfg) srcOffset
                              (QSPI_ReadBlock pf) s4
                     in (result, CONFIG_SERVICE_BOOT_DDR_TARGET_ADDR cfg, s5))
               else (result, pp, s4))
      else (let pp1 = QSPI_BASE cfg;
                (result, s1) = verifyMagic cfg pp1 s
            in (result, pp1, s1)))"

definition getBootImageFromPayload :: "config \<Rightarrow> ('x, 'w) platform \<Rightarrow> addr \<Rightarrow> ('x, 'w) state \<Rightarrow>
    bool \<times> addr \<times> ('x, 'w) state" where
  "getBootImageFromPayload cfg pf pp s =
     (let pp1 = payload_start cfg;
          (result, s1) = verifyMagic cfg pp1 s;
          s2 = printBootImageDetails cfg pp1 s1
      in (result, pp1, s2))"

definition getBootImageFromSpiFlash :: "config \<Rightarrow> ('x, 'w) platform \<Rightarrow> addr \<Rightarrow> ('x, 'w) state \<Rightarrow>
    bool \<times> addr \<times> ('x, 'w) state" where
  "getBootImageFromSpiFlash cfg pf pp s =
     (let srcOffset = CONFIG_SERVICE_BOOT_SPI_FLASH_OFFSET cfg;
          s1 = emit (Log LOG_NORMAL ''Preparing to copy from SPI Flash +0x%lx to DDR ...'') s;
          s2 = emit (Log LOG_NORMAL ''Attempting to read image header (%d bytes) ...'') s1;
          (u, s3) = call (MSS_SYS_select_service_mode pf) (\<lambda>_. Call_MSS_SYS_select_service_mode) s2;
          (result, s4) = spiFlashReadBlock pf (bootImage cfg) srcOffset (sizeof_HSS_BootImage cfg) s3
      in if \<not> result then (False, pp, s4)
         else (let (result, s5) = verifyMagic cfg (bootImage cfg) s4
               in if \<not> result then (False, pp, s5)
                  else (let (result, s6) = copyBootImageToDDR cfg (bootImage cfg)
                                 (CONFIG_SERVICE_BOOT_DDR_TARGET_ADDR cfg) srcOffset
                                 (spiFlashReadBlock pf) s5
                        in (result, CONFIG_SERVICE_BOOT_DDR_TARGET_ADDR cfg, s6))))"

subsection \<open>Selection of the source\<close>

definition HSS_BootSelectMMC :: "('x, 'w) state \<Rightarrow> ('x, 'w) state" where
  "HSS_BootSelectMMC s =
     (emit (Log LOG_NORMAL ''Selecting MMC as boot source ...'') s)\<lparr>getBootImageFunction := FromMMC\<rparr>"

definition HSS_BootSelectQSPI :: "('x, 'w) state \<Rightarrow> ('x, 'w) state" where
  "HSS_BootSelectQSPI s =
     (emit (Log LOG_NORMAL ''Selecting QSPI as boot source ...'') s)\<lparr>getBootImageFunction := FromQSPI\<rparr>"

definition HSS_BootSelectPayload :: "('x, 'w) state \<Rightarrow> ('x, 'w) state" where
  "HSS_BootSelectPayload s =
     (emit (Log LOG_NORMAL ''Selecting Payload as boot source ...'') s)\<lparr>getBootImageFunction := FromPayload\<rparr>"

definition HSS_BootSelectSPI :: "('x, 'w) state \<Rightarrow> ('x, 'w) state" where
  "HSS_BootSelectSPI s =
     (emit (Log LOG_NORMAL ''Selecting SPI Flash as boot source ...'') s)\<lparr>getBootImageFunction := FromSpiFlash\<rparr>"

text \<open>The call through the function pointer.\<close>

definition call_getBootImageFunction :: "config \<Rightarrow> ('x, 'w) platform \<Rightarrow> addr \<Rightarrow> ('x, 'w) state \<Rightarrow>
    bool \<times> addr \<times> ('x, 'w) state" where
  "call_getBootImageFunction cfg pf pp s =
     (case getBootImageFunction s of
        FromSpiFlash \<Rightarrow> getBootImageFromSpiFlash cfg pf pp s
      | FromMMC \<Rightarrow> getBootImageFromMMC cfg pf pp s
      | FromQSPI \<Rightarrow> getBootImageFromQSPI cfg pf pp s
      | FromPayload \<Rightarrow> getBootImageFromPayload cfg pf pp s)"

subsection \<open>The pipeline\<close>

datatype fault = NullDereference

text \<open>
  \<^verbatim>\<open>HSS_BootInit\<close>, first part: the call of the reader and the block under
  \<^verbatim>\<open>CONFIG_COMPRESSION\<close>. It returns \<^verbatim>\<open>result\<close>, \<^verbatim>\<open>decompressedFlag\<close> and
  \<^verbatim>\<open>pBootImage\<close>. The guard of the block reads \<^verbatim>\<open>pBootImage->magic\<close> as soon as
  \<^verbatim>\<open>result\<close> is true, whatever the pointer: with a null pointer that is a fault.
\<close>

definition HSS_BootInit_acquire :: "config \<Rightarrow> ('x, 'w) platform \<Rightarrow> ('x, 'w) state \<Rightarrow>
    fault + (bool \<times> bool \<times> addr \<times> ('x, 'w) state)" where
  "HSS_BootInit_acquire cfg pf s =
     (let (result, pBootImage, s1) = call_getBootImageFunction cfg pf NULL s
      in if \<not> CONFIG_COMPRESSION cfg then Inr (result, False, pBootImage, s1)
         else if \<not> result then Inr (result, False, pBootImage, s1)
         else if pBootImage = NULL then Inl NullDereference
         else if magic (heap s1 pBootImage) = mHSS_COMPRESSED_MAGIC cfg
         then (if \<not> result
               then Inr (result, True, pBootImage,
                      emit (Log LOG_ERROR ''Failed to get boot image, cannot decompress'') s1)
               else if pBootImage = NULL
               then Inr (False, True, pBootImage,
                      emit (Log LOG_ERROR ''Boot Image NULL, ignoring'') s1)
               else (let s2 = emit (Log LOG_NORMAL ''Preparing to decompress to DDR...'') s1;
                         pInput = pBootImage;
                         pOutputInDDR = CONFIG_SERVICE_BOOT_DDR_TARGET_ADDR cfg;
                         (outputSize, s3) = call (HSS_Decompress pf pInput pOutputInDDR)
                                              (Call_HSS_Decompress pInput pOutputInDDR) s2;
                         s4 = emit (Log LOG_NORMAL ''decompressed %d bytes...'') s3
                     in if outputSize \<noteq> 0 then Inr (result, True, pOutputInDDR, s4)
                        else Inr (result, True, NULL, s4)))
         else Inr (result, False, pBootImage, s1))"

text \<open>
  \<^verbatim>\<open>HSS_BootInit\<close>, second part: the block that checks the image and registers it.
  When \<^verbatim>\<open>validateCrc_\<close> fails the block only prints, and \<^verbatim>\<open>result\<close> keeps the
  value it had. (The message with the set name is written here without the quotation
  marks it has around \<^verbatim>\<open>%s\<close>.)
\<close>

definition HSS_BootInit_validate :: "config \<Rightarrow> ('x, 'w) platform \<Rightarrow> bool \<Rightarrow> bool \<Rightarrow> addr \<Rightarrow>
    ('x, 'w) state \<Rightarrow> bool \<times> ('x, 'w) state" where
  "HSS_BootInit_validate cfg pf result decompressedFlag pBootImage s =
     (if pBootImage = NULL
      then (False, emit (Log LOG_ERROR ''Boot Image NULL, ignoring'') s)
      else if magic (heap s pBootImage) \<noteq> mHSS_BOOT_MAGIC cfg
      then (False, emit (Log LOG_ERROR ''Boot Image magic invalid, ignoring'') s)
      else (let (valid, s1) = validateCrc cfg pf pBootImage s
            in if valid
               then (let s2 = emit (Log LOG_NORMAL ''%s boot image passed CRC'') s1;
                         s3 = emit (Log LOG_NORMAL ''Boot image set name: %s'') s2;
                         (u, s4) = call (HSS_Register_Boot_Image pf pBootImage)
                                     (\<lambda>_. Call_HSS_Register_Boot_Image pBootImage) s3;
                         s5 = emit (Log LOG_NORMAL ''Boot Image registered...'') s4
                     in if CONFIG_SERVICE_BOOT_CUSTOM_FLOW cfg
                        then call (HSS_Boot_Custom pf) Call_HSS_Boot_Custom s5
                        else (let (status, s6) = call (HSS_Boot_RestartCore pf)
                                       Call_HSS_Boot_RestartCore s5
                              in if status = IPI_SUCCESS then (True, s6) else (False, s6)))
               else (let s2 = emit (Log LOG_ERROR ''%s boot image failed CRC'') s1;
                         crc = CRC32_calculate pf (heap s2) pBootImage
                                 (bootImageLength (heap s2 pBootImage));
                         s3 = emit (Call_CRC32_calculate pBootImage
                                 (bootImageLength (heap s2 pBootImage)) crc) s2;
                         s4 = emit (Log LOG_NORMAL ''Calculated CRC32 of image in DDR is 0x%08x'') s3
                     in (result, s4))))"

definition HSS_BootInit :: "config \<Rightarrow> ('x, 'w) platform \<Rightarrow> ('x, 'w) state \<Rightarrow>
    fault + (bool \<times> ('x, 'w) state)" where
  "HSS_BootInit cfg pf s =
     (let s0 = emit (Log LOG_NORMAL ''Initializing Boot Image..'') s
      in if \<not> CONFIG_SERVICE_BOOT cfg then Inr (False, s0)
         else (case HSS_BootInit_acquire cfg pf s0 of
                 Inl f \<Rightarrow> Inl f
               | Inr (result, decompressedFlag, pBootImage, s1) \<Rightarrow>
                   Inr (HSS_BootInit_validate cfg pf result decompressedFlag pBootImage s1)))"

subsection \<open>The block-copy path as the spec words it\<close>

text \<open>
  Follows the spec (4.2, block-copy reader), not the code: read the header into the scratch
  buffer from a starting offset; verify its magic; if valid, read \<open>bootImageLength\<close> bytes
  from the same offset to the target address with the same primitive; any read failure is
  a failure. It returns the success flag and what memory and devices are afterwards.
\<close>

definition generic_block_copy :: "config \<Rightarrow>
    (addr \<Rightarrow> u64 \<Rightarrow> u64 \<Rightarrow> ('x, 'w) mach \<Rightarrow> bool \<times> ('x, 'w) mach) \<Rightarrow> u64 \<Rightarrow>
    ('x, 'w) mach \<Rightarrow> bool \<times> ('x, 'w) mach" where
  "generic_block_copy cfg rd start m =
     (case rd (bootImage cfg) start (sizeof_HSS_BootImage cfg) m of
        (ok, m1) \<Rightarrow>
          if ok
          then (if magic (fst m1 (bootImage cfg)) = mHSS_BOOT_MAGIC cfg
                   \<or> magic (fst m1 (bootImage cfg)) = mHSS_COMPRESSED_MAGIC cfg
                then rd (CONFIG_SERVICE_BOOT_DDR_TARGET_ADDR cfg) start
                       (bootImageLength (fst m1 (bootImage cfg))) m1
                else (False, m1))
          else (False, m1))"

subsection \<open>Kinds of events\<close>

text \<open>The messages the readers print, and the events a reader can add to the trace.\<close>

definition reader_log :: "string list" where
  "reader_log =
    [''magic is %08x vs expected %08x or %08x'',
     '' - length is   %08X'', '' - magic is    %08X'', '' - set name is >>%s<<'',
     ''Copying %lu bytes to 0x%x'',
     ''Failed to read 0x%lx bytes from SPI flash @0x%lx (error code %d)!'',
     ''GPT_ValidatePartitionEntries() failed'', ''GPT_FindPartitionByUniqueId() failed'',
     ''Preparing to copy from MMC to DDR ...'',
     ''Attempting to read image header (%d bytes) ...'',
     ''HSS_MMC_ReadBlock() failed'', ''verifyMagic_() failed'', ''copyBootImageToDDR_() failed'',
     ''Preparing to copy from QSPI to DDR ...'',
     ''Preparing to copy from SPI Flash +0x%lx to DDR ...'']"

fun reader_event :: "event \<Rightarrow> bool" where
  "reader_event (Log l m) = (m \<in> set reader_log)"
| "reader_event (Call_HSS_MMC_ReadBlock d off n r) = True"
| "reader_event (Call_HSS_QSPI_ReadBlock d off n r) = True"
| "reader_event (Call_MSS_SYS_spi_copy d off n r) = True"
| "reader_event Call_MSS_SYS_select_service_mode = True"
| "reader_event Call_GPT_RegisterReadBlockFunction = True"
| "reader_event (Call_GPT_ReadHeader r) = True"
| "reader_event (Call_GPT_ValidateHeader r) = True"
| "reader_event (Call_GPT_ValidatePartitionEntries r) = True"
| "reader_event (Call_GPT_FindPartitionByTypeId r f l) = True"
| "reader_event (Call_CRC32_calculate p n v) = False"
| "reader_event (Call_HSS_Decompress i o' n) = False"
| "reader_event (Call_HSS_Register_Boot_Image p) = False"
| "reader_event (Call_HSS_Boot_RestartCore r) = False"
| "reader_event (Call_HSS_Boot_Custom r) = False"

text \<open>The same for the first part of \<^verbatim>\<open>HSS_BootInit\<close>, which adds the decompression.\<close>

definition acquire_log :: "string list" where
  "acquire_log = reader_log @ [''Preparing to decompress to DDR...'', ''decompressed %d bytes...'']"

fun acquire_event :: "event \<Rightarrow> bool" where
  "acquire_event (Log l m) = (m \<in> set acquire_log)"
| "acquire_event (Call_HSS_Decompress i o' n) = True"
| "acquire_event e = reader_event e"

text \<open>The launch calls, and what the validation block emits when it does not register.\<close>

fun launch_event :: "event \<Rightarrow> bool" where
  "launch_event (Call_HSS_Boot_RestartCore r) = True"
| "launch_event (Call_HSS_Boot_Custom r) = True"
| "launch_event e = False"

fun diagnostic_event :: "event \<Rightarrow> bool" where
  "diagnostic_event (Log l m) = True"
| "diagnostic_event (Call_CRC32_calculate p n v) = True"
| "diagnostic_event e = False"

text \<open>
  \<open>ext_by P s s'\<close>: the trace of \<open>s'\<close> is the trace of \<open>s\<close> followed by events that
  satisfy \<open>P\<close>, and the function pointer is the same.
\<close>

definition ext_by :: "(event \<Rightarrow> bool) \<Rightarrow> ('x, 'w) state \<Rightarrow> ('x, 'w) state \<Rightarrow> bool" where
  "ext_by P s s' = (getBootImageFunction s' = getBootImageFunction s \<and>
     (\<exists>t. events s' = events s @ t \<and> list_all P t))"

text \<open>
  The addresses the configuration gives are addresses of memory: none is the null pointer.
\<close>

definition valid_addresses :: "config \<Rightarrow> bool" where
  "valid_addresses cfg =
     (CONFIG_SERVICE_BOOT_DDR_TARGET_ADDR cfg \<noteq> NULL \<and> QSPI_BASE cfg \<noteq> NULL
      \<and> payload_start cfg \<noteq> NULL)"

subsection \<open>A concrete platform\<close>

text \<open>
  A configuration with compression and the partition table enabled, and collaborators
  small enough to run by hand: the media hold one plain image, whose checksum is right
  for the checksum function below; the card has no partition table; the decompressor
  fails; the launch succeeds.
\<close>

definition plain_image :: HSS_BootImage where
  "plain_image = \<lparr>magic = 0xB007C0DE, headerCrc = 0xB007C73E, bootImageLength = 4096, set_name = []\<rparr>"

definition compressed_image :: HSS_BootImage where
  "compressed_image = \<lparr>magic = 0xC08B8355, headerCrc = 0, bootImageLength = 2048, set_name = []\<rparr>"

definition blank :: HSS_BootImage where
  "blank = \<lparr>magic = 0, headerCrc = 0, bootImageLength = 0, set_name = []\<rparr>"

definition test_config :: config where
  "test_config =
     \<lparr>mHSS_BOOT_MAGIC = 0xB007C0DE, mHSS_COMPRESSED_MAGIC = 0xC08B8355,
      sizeof_HSS_BootImage = 1632, GPT_LBA_SIZE = 512,
      CONFIG_SERVICE_BOOT = True, CONFIG_COMPRESSION = True,
      CONFIG_SERVICE_BOOT_CUSTOM_FLOW = False, CONFIG_SERVICE_BOOT_MMC_USE_GPT = True,
      CONFIG_SERVICE_QSPI_USE_XIP = False, BOOT_DEBUG = False,
      CONFIG_SERVICE_BOOT_DDR_TARGET_ADDR = 0xA0000000,
      CONFIG_SERVICE_BOOT_SPI_FLASH_OFFSET = 0x400,
      QSPI_BASE = 0x21000000, payload_start = 0x20240000, bootImage = 0x08001000\<rparr>"

definition test_platform :: "(unit, unit) platform" where
  "test_platform =
     \<lparr>CRC32_calculate = (\<lambda>h p n. magic (h p) + headerCrc (h p) + ucast n),
      HSS_MMC_ReadBlock = (\<lambda>d off n m. (True, ((fst m)(d := plain_image), snd m))),
      HSS_QSPI_ReadBlock = (\<lambda>d off n m. (True, ((fst m)(d := plain_image), snd m))),
      MSS_SYS_spi_copy = (\<lambda>d off n m. (0, ((fst m)(d := plain_image), snd m))),
      MSS_SYS_select_service_mode = (\<lambda>m. ((), m)),
      GPT_RegisterReadBlockFunction = (\<lambda>m. ((), m)),
      GPT_ReadHeader = (\<lambda>m. (False, m)),
      GPT_ValidateHeader = (\<lambda>m. (True, m)),
      GPT_ValidatePartitionEntries = (\<lambda>m. (True, m)),
      GPT_FindPartitionByTypeId = (\<lambda>m. ((False, 0, 0), m)),
      HSS_Decompress = (\<lambda>i o' m. (0, m)),
      HSS_Register_Boot_Image = (\<lambda>p m. ((), m)),
      HSS_Boot_RestartCore = (\<lambda>m. (IPI_SUCCESS, m)),
      HSS_Boot_Custom = (\<lambda>m. (True, m))\<rparr>"

definition test_state :: "BootSource \<Rightarrow> unit memory \<Rightarrow> (unit, unit) state" where
  "test_state src h = \<lparr>heap = h, dev = (), getBootImageFunction = src, events = []\<rparr>"

definition corrupt_image :: HSS_BootImage where
  "corrupt_image = plain_image\<lparr>headerCrc := 0xB007C73F\<rparr>"

text \<open>The payload is the plain image, and the state the boot leaves.\<close>

definition payload_plain_state :: "(unit, unit) state" where
  "payload_plain_state = test_state FromPayload ((\<lambda>a. blank)(0x20240000 := plain_image))"

definition payload_plain_final :: "(unit, unit) state" where
  "payload_plain_final =
     payload_plain_state\<lparr>events :=
       [Log LOG_NORMAL ''Initializing Boot Image..'',
        Call_CRC32_calculate 0x20240000 1632 0xB007C73E,
        Log LOG_NORMAL ''%s boot image passed CRC'',
        Log LOG_NORMAL ''Boot image set name: %s'',
        Call_HSS_Register_Boot_Image 0x20240000,
        Log LOG_NORMAL ''Boot Image registered...'',
        Call_HSS_Boot_RestartCore IPI_SUCCESS]\<rparr>"

text \<open>The payload is an image whose stored header checksum is wrong by one bit.\<close>

definition payload_corrupt_state :: "(unit, unit) state" where
  "payload_corrupt_state = test_state FromPayload ((\<lambda>a. blank)(0x20240000 := corrupt_image))"

definition payload_corrupt_final :: "(unit, unit) state" where
  "payload_corrupt_final =
     payload_corrupt_state\<lparr>events :=
       [Log LOG_NORMAL ''Initializing Boot Image..'',
        Call_CRC32_calculate 0x20240000 1632 0xB007C73E,
        Log LOG_ERROR
          ''Checked HSS_BootImage header CRC (%p->%p): calculated %08x vs expected %08x'',
        Log LOG_ERROR ''%s boot image failed CRC'',
        Call_CRC32_calculate 0x20240000 4096 0x600F981D,
        Log LOG_NORMAL ''Calculated CRC32 of image in DDR is 0x%08x'']\<rparr>"

text \<open>The payload is a compressed image; the decompressor of the platform fails.\<close>

definition payload_compressed_state :: "(unit, unit) state" where
  "payload_compressed_state = test_state FromPayload ((\<lambda>a. blank)(0x20240000 := compressed_image))"

definition payload_compressed_final :: "(unit, unit) state" where
  "payload_compressed_final =
     payload_compressed_state\<lparr>events :=
       [Log LOG_NORMAL ''Initializing Boot Image..'',
        Log LOG_NORMAL ''Preparing to decompress to DDR...'',
        Call_HSS_Decompress 0x20240000 0xA0000000 0,
        Log LOG_NORMAL ''decompressed %d bytes...'',
        Log LOG_ERROR ''Boot Image NULL, ignoring'']\<rparr>"

text \<open>
  The card as boot source. With \<open>test_platform\<close> the partition table cannot be read and
  both reads succeed.
\<close>

definition mmc_state :: "(unit, unit) state" where
  "mmc_state = test_state FromMMC (\<lambda>a. blank)"

definition mmc_lookup_failed :: "(unit, unit) state" where
  "mmc_lookup_failed =
     mmc_state\<lparr>events :=
       [Log LOG_NORMAL ''Preparing to copy from MMC to DDR ...'',
        Log LOG_NORMAL ''Attempting to read image header (%d bytes) ...'',
        Call_GPT_RegisterReadBlockFunction,
        Call_GPT_ReadHeader False]\<rparr>"

definition mmc_acquired :: "(unit, unit) state" where
  "mmc_acquired =
     \<lparr>heap = (\<lambda>a. blank)(0x08001000 := plain_image, 0xA0000000 := plain_image),
      dev = (), getBootImageFunction = FromMMC,
      events =
       [Log LOG_NORMAL ''Preparing to copy from MMC to DDR ...'',
        Log LOG_NORMAL ''Attempting to read image header (%d bytes) ...'',
        Call_GPT_RegisterReadBlockFunction,
        Call_GPT_ReadHeader False,
        Call_HSS_MMC_ReadBlock 0x08001000 0 1632 True,
        Log LOG_NORMAL ''Copying %lu bytes to 0x%x'',
        Call_HSS_MMC_ReadBlock 0xA0000000 0 4096 True]\<rparr>"

text \<open>
  A card whose second read fails after the header has reached the target: the read of
  the image into DDR stores the header and reports failure.
\<close>

definition partial_copy_platform :: "(unit, unit) platform" where
  "partial_copy_platform =
     test_platform\<lparr>HSS_MMC_ReadBlock :=
       (\<lambda>d off n m. (d \<noteq> 0xA0000000, ((fst m)(d := plain_image), snd m)))\<rparr>"

definition mmc_partial_final :: "(unit, unit) state" where
  "mmc_partial_final =
     \<lparr>heap = (\<lambda>a. blank)(0x08001000 := plain_image, 0xA0000000 := plain_image),
      dev = (), getBootImageFunction = FromMMC,
      events =
       [Log LOG_NORMAL ''Initializing Boot Image..'',
        Log LOG_NORMAL ''Preparing to copy from MMC to DDR ...'',
        Log LOG_NORMAL ''Attempting to read image header (%d bytes) ...'',
        Call_GPT_RegisterReadBlockFunction,
        Call_GPT_ReadHeader False,
        Call_HSS_MMC_ReadBlock 0x08001000 0 1632 True,
        Log LOG_NORMAL ''Copying %lu bytes to 0x%x'',
        Call_HSS_MMC_ReadBlock 0xA0000000 0 4096 False,
        Log LOG_ERROR ''copyBootImageToDDR_() failed'',
        Call_CRC32_calculate 0xA0000000 1632 0xB007C73E,
        Log LOG_NORMAL ''%s boot image passed CRC'',
        Log LOG_NORMAL ''Boot image set name: %s'',
        Call_HSS_Register_Boot_Image 0xA0000000,
        Log LOG_NORMAL ''Boot Image registered...'',
        Call_HSS_Boot_RestartCore IPI_SUCCESS]\<rparr>"

text \<open>
  QSPI (no XIP) as boot source, with a flash whose first read, the one of the header into
  the scratch buffer, reports failure after the bytes have arrived; the copy to DDR
  succeeds.
\<close>

definition qspi_state :: "(unit, unit) state" where
  "qspi_state = test_state FromQSPI (\<lambda>a. blank)"

definition header_read_fails_platform :: "(unit, unit) platform" where
  "header_read_fails_platform =
     test_platform\<lparr>HSS_QSPI_ReadBlock :=
       (\<lambda>d off n m. (d \<noteq> 0x08001000, ((fst m)(d := plain_image), snd m)))\<rparr>"

definition qspi_acquired :: "(unit, unit) state" where
  "qspi_acquired =
     \<lparr>heap = (\<lambda>a. blank)(0x08001000 := plain_image, 0xA0000000 := plain_image),
      dev = (), getBootImageFunction = FromQSPI,
      events =
       [Log LOG_NORMAL ''Preparing to copy from QSPI to DDR ...'',
        Log LOG_NORMAL ''Attempting to read image header (%d bytes) ...'',
        Call_HSS_QSPI_ReadBlock 0x08001000 0 1632 False,
        Log LOG_NORMAL ''Copying %lu bytes to 0x%x'',
        Call_HSS_QSPI_ReadBlock 0xA0000000 0 4096 True]\<rparr>"

definition qspi_final :: "(unit, unit) state" where
  "qspi_final =
     \<lparr>heap = (\<lambda>a. blank)(0x08001000 := plain_image, 0xA0000000 := plain_image),
      dev = (), getBootImageFunction = FromQSPI,
      events =
       [Log LOG_NORMAL ''Initializing Boot Image..'',
        Log LOG_NORMAL ''Preparing to copy from QSPI to DDR ...'',
        Log LOG_NORMAL ''Attempting to read image header (%d bytes) ...'',
        Call_HSS_QSPI_ReadBlock 0x08001000 0 1632 False,
        Log LOG_NORMAL ''Copying %lu bytes to 0x%x'',
        Call_HSS_QSPI_ReadBlock 0xA0000000 0 4096 True,
        Call_CRC32_calculate 0xA0000000 1632 0xB007C73E,
        Log LOG_NORMAL ''%s boot image passed CRC'',
        Log LOG_NORMAL ''Boot image set name: %s'',
        Call_HSS_Register_Boot_Image 0xA0000000,
        Log LOG_NORMAL ''Boot Image registered...'',
        Call_HSS_Boot_RestartCore IPI_SUCCESS]\<rparr>"

section \<open>Properties\<close>

subsection \<open>Traces\<close>

lemma emit_simps [simp]:
  "heap (emit e s) = heap s" "dev (emit e s) = dev s"
  "getBootImageFunction (emit e s) = getBootImageFunction s"
  "events (emit e s) = events s @ [e]"
  by (simp_all add: emit_def)

lemma ext_by_refl [simp, intro!]: "ext_by P s s"
  by (simp add: ext_by_def)

lemma ext_by_trans: "ext_by P s0 s1 \<Longrightarrow> ext_by P s1 s2 \<Longrightarrow> ext_by P s0 s2"
  by (auto simp: ext_by_def)

lemma ext_by_mono: "ext_by P s s' \<Longrightarrow> (\<And>e. P e \<Longrightarrow> Q e) \<Longrightarrow> ext_by Q s s'"
  by (auto simp: ext_by_def list_all_iff)

lemma ext_by_emit: "P e \<Longrightarrow> ext_by P s0 s \<Longrightarrow> ext_by P s0 (emit e s)"
  by (auto simp: ext_by_def)

lemma ext_by_call: "call f ev s = (r, s') \<Longrightarrow> P (ev r) \<Longrightarrow> ext_by P s0 s \<Longrightarrow> ext_by P s0 s'"
  by (auto simp: ext_by_def call_def split: prod.splits)

lemma verifyMagic_ext:
  "verifyMagic cfg p s = (r, s') \<Longrightarrow> ext_by reader_event s0 s \<Longrightarrow> ext_by reader_event s0 s'"
  by (auto simp: verifyMagic_def reader_log_def split: if_splits intro!: ext_by_emit)

lemma printBootImageDetails_ext:
  "ext_by reader_event s0 s \<Longrightarrow> ext_by reader_event s0 (printBootImageDetails cfg p s)"
  by (auto simp: printBootImageDetails_def reader_log_def intro!: ext_by_emit)

lemma MMC_ReadBlock_ext:
  "MMC_ReadBlock pf d off n s = (r, s') \<Longrightarrow> ext_by reader_event s0 s \<Longrightarrow> ext_by reader_event s0 s'"
  unfolding MMC_ReadBlock_def by (erule ext_by_call) simp_all

lemma QSPI_ReadBlock_ext:
  "QSPI_ReadBlock pf d off n s = (r, s') \<Longrightarrow> ext_by reader_event s0 s \<Longrightarrow> ext_by reader_event s0 s'"
  unfolding QSPI_ReadBlock_def by (erule ext_by_call) simp_all

lemma spiFlashReadBlock_ext:
  "spiFlashReadBlock pf d off n s = (r, s') \<Longrightarrow> ext_by reader_event s0 s \<Longrightarrow> ext_by reader_event s0 s'"
  unfolding spiFlashReadBlock_def
  by (auto simp: reader_log_def split: prod.splits if_splits intro!: ext_by_emit elim: ext_by_call)

lemma copyBootImageToDDR_ext:
  assumes "copyBootImageToDDR cfg p d off cp s = (r, s')" "ext_by reader_event s0 s"
    and cp: "\<And>d off n s r s'. cp d off n s = (r, s') \<Longrightarrow> ext_by reader_event s0 s \<Longrightarrow> ext_by reader_event s0 s'"
  shows "ext_by reader_event s0 s'"
  using assms(1) unfolding copyBootImageToDDR_def Let_def
  by (rule cp) (auto simp: reader_log_def intro!: ext_by_emit printBootImageDetails_ext assms(2))

lemma MMC_GPT_lookup_ext:
  "MMC_GPT_lookup pf s = (r, off, s') \<Longrightarrow> ext_by reader_event s0 s \<Longrightarrow> ext_by reader_event s0 s'"
  unfolding MMC_GPT_lookup_def Let_def
  apply (clarsimp split: prod.splits if_splits)
  apply ((rule ext_by_emit | (erule ext_by_call) | simp add: reader_log_def)+)+
  done

lemma getBootImageFromMMC_ext:
  "getBootImageFromMMC cfg pf pp s = (r, p, s') \<Longrightarrow> ext_by reader_event s s'"
  unfolding getBootImageFromMMC_def Let_def
  apply (clarsimp split: prod.splits if_splits)
  apply ((rule ext_by_emit ext_by_refl | erule MMC_ReadBlock_ext verifyMagic_ext MMC_GPT_lookup_ext
           copyBootImageToDDR_ext | simp add: reader_log_def)+)+
  done

lemma getBootImageFromQSPI_ext:
  "getBootImageFromQSPI cfg pf pp s = (r, p, s') \<Longrightarrow> ext_by reader_event s s'"
  unfolding getBootImageFromQSPI_def Let_def
  apply (clarsimp split: prod.splits if_splits)
  apply ((rule ext_by_emit ext_by_refl | erule QSPI_ReadBlock_ext verifyMagic_ext
           copyBootImageToDDR_ext | simp add: reader_log_def)+)+
  done

lemma getBootImageFromPayload_ext:
  "getBootImageFromPayload cfg pf pp s = (r, p, s') \<Longrightarrow> ext_by reader_event s s'"
  unfolding getBootImageFromPayload_def Let_def
  apply (clarsimp split: prod.splits if_splits)
  apply ((rule ext_by_emit ext_by_refl printBootImageDetails_ext | erule verifyMagic_ext
           | simp add: reader_log_def)+)+
  done

lemma getBootImageFromSpiFlash_ext:
  "getBootImageFromSpiFlash cfg pf pp s = (r, p, s') \<Longrightarrow> ext_by reader_event s s'"
  unfolding getBootImageFromSpiFlash_def Let_def
  apply (clarsimp split: prod.splits if_splits)
  apply ((rule ext_by_emit ext_by_refl | erule spiFlashReadBlock_ext verifyMagic_ext ext_by_call
           copyBootImageToDDR_ext | simp add: reader_log_def)+)+
  done

lemma call_getBootImageFunction_ext:
  "call_getBootImageFunction cfg pf pp s = (r, p, s') \<Longrightarrow> ext_by reader_event s s'"
  unfolding call_getBootImageFunction_def
  by (auto split: BootSource.splits
      dest: getBootImageFromMMC_ext getBootImageFromQSPI_ext getBootImageFromPayload_ext
        getBootImageFromSpiFlash_ext)

lemma reader_acquire_event: "reader_event e \<Longrightarrow> acquire_event e"
  by (cases e) (simp_all add: acquire_log_def)

lemma ext_by_events:
  "ext_by P s s' \<Longrightarrow> events s' = events s @ new_events s s' \<and> list_all P (new_events s s')"
  by (auto simp: ext_by_def new_events_def)

lemma new_events_trans:
  "ext_by P s s1 \<Longrightarrow> ext_by Q s1 s2 \<Longrightarrow> new_events s s2 = new_events s s1 @ new_events s1 s2"
  by (auto simp: ext_by_def new_events_def)

lemma new_events_emit [simp]: "new_events s (emit e s) = [e]"
  by (simp add: new_events_def)

lemma reader_true_pointer:
  "call_getBootImageFunction cfg pf pp s = (True, p, s') \<Longrightarrow>
     p = CONFIG_SERVICE_BOOT_DDR_TARGET_ADDR cfg \<or> p = QSPI_BASE cfg \<or> p = payload_start cfg"
  unfolding call_getBootImageFunction_def getBootImageFromMMC_def getBootImageFromQSPI_def
    getBootImageFromPayload_def getBootImageFromSpiFlash_def Let_def
  by (auto split: BootSource.splits prod.splits if_splits)

lemma HSS_BootInit_acquire_ext:
  "HSS_BootInit_acquire cfg pf s = Inr (res, flag, p, s') \<Longrightarrow> ext_by acquire_event s s'"
  unfolding HSS_BootInit_acquire_def Let_def
  apply (clarsimp split: prod.splits if_splits)
  apply ((drule call_getBootImageFunction_ext, erule ext_by_mono, erule reader_acquire_event)
    | ((rule ext_by_emit | erule ext_by_call | simp add: acquire_log_def)+,
       drule call_getBootImageFunction_ext, erule ext_by_mono, erule reader_acquire_event))+
  done

lemma HSS_BootInit_acquire_no_fault:
  "valid_addresses cfg \<Longrightarrow> \<exists>res flag p s'. HSS_BootInit_acquire cfg pf s = Inr (res, flag, p, s')"
  unfolding HSS_BootInit_acquire_def Let_def valid_addresses_def
  by (auto split: prod.splits dest: reader_true_pointer)

subsection \<open>The validation block\<close>

lemma validateCrc_eq:
  "validateCrc cfg pf p s =
     (CRC32_calculate pf ((heap s)(p := (heap s p)\<lparr>headerCrc := 0\<rparr>)) p (sizeof_HSS_BootImage cfg)
        = headerCrc (heap s p),
      s\<lparr>events := events s @
          Call_CRC32_calculate p (sizeof_HSS_BootImage cfg)
            (CRC32_calculate pf ((heap s)(p := (heap s p)\<lparr>headerCrc := 0\<rparr>)) p (sizeof_HSS_BootImage cfg))
          # (if CRC32_calculate pf ((heap s)(p := (heap s p)\<lparr>headerCrc := 0\<rparr>)) p
                  (sizeof_HSS_BootImage cfg) = headerCrc (heap s p)
             then []
             else [Log LOG_ERROR
               ''Checked HSS_BootImage header CRC (%p->%p): calculated %08x vs expected %08x''])\<rparr>)"
  by (simp add: validateCrc_def Let_def emit_def)

lemma validateCrc_result:
  "fst (validateCrc cfg pf p s)
     = (CRC32_calculate pf ((heap s)(p := (heap s p)\<lparr>headerCrc := 0\<rparr>)) p (sizeof_HSS_BootImage cfg)
          = headerCrc (heap s p))"
  by (simp add: validateCrc_eq)

lemma validate_null:
  "HSS_BootInit_validate cfg pf res flag NULL s =
     (False, emit (Log LOG_ERROR ''Boot Image NULL, ignoring'') s)"
  by (simp add: HSS_BootInit_validate_def)

lemma validate_bad_magic:
  "p \<noteq> NULL \<Longrightarrow> magic (heap s p) \<noteq> mHSS_BOOT_MAGIC cfg \<Longrightarrow>
   HSS_BootInit_validate cfg pf res flag p s =
     (False, emit (Log LOG_ERROR ''Boot Image magic invalid, ignoring'') s)"
  by (simp add: HSS_BootInit_validate_def)

lemma validate_crc_fail:
  "p \<noteq> NULL \<Longrightarrow> magic (heap s p) = mHSS_BOOT_MAGIC cfg \<Longrightarrow> \<not> fst (validateCrc cfg pf p s) \<Longrightarrow>
   HSS_BootInit_validate cfg pf res flag p s =
     (res, emit (Log LOG_NORMAL ''Calculated CRC32 of image in DDR is 0x%08x'')
        (emit (Call_CRC32_calculate p (bootImageLength (heap s p))
                 (CRC32_calculate pf (heap s) p (bootImageLength (heap s p))))
          (emit (Log LOG_ERROR ''%s boot image failed CRC'') (snd (validateCrc cfg pf p s)))))"
  by (simp add: HSS_BootInit_validate_def Let_def validateCrc_eq split: prod.splits)

lemma validate_pass:
  "p \<noteq> NULL \<Longrightarrow> magic (heap s p) = mHSS_BOOT_MAGIC cfg \<Longrightarrow> fst (validateCrc cfg pf p s) \<Longrightarrow>
   HSS_BootInit_validate cfg pf res flag p s = (r, s') \<Longrightarrow>
   \<exists>e. launch_event e \<and> events s' = events s @
     [Call_CRC32_calculate p (sizeof_HSS_BootImage cfg) (headerCrc (heap s p)),
      Log LOG_NORMAL ''%s boot image passed CRC'',
      Log LOG_NORMAL ''Boot image set name: %s'',
      Call_HSS_Register_Boot_Image p,
      Log LOG_NORMAL ''Boot Image registered...'', e]"
  by (auto simp: HSS_BootInit_validate_def Let_def validateCrc_eq call_def split: prod.splits if_splits)

lemma validate_ext_fail:
  assumes "\<not> (p \<noteq> NULL \<and> magic (heap s p) = mHSS_BOOT_MAGIC cfg \<and> fst (validateCrc cfg pf p s))"
    and "HSS_BootInit_validate cfg pf res flag p s = (r, s')"
  shows "ext_by diagnostic_event s s'"
  using assms
  by (auto simp: HSS_BootInit_validate_def Let_def validateCrc_eq ext_by_def emit_def
      split: prod.splits if_splits)

lemma full_crc_logged_iff:
  "(Log LOG_NORMAL ''Calculated CRC32 of image in DDR is 0x%08x''
      \<in> set (new_events s (snd (HSS_BootInit_validate cfg pf res flag p s))))
   = (p \<noteq> NULL \<and> magic (heap s p) = mHSS_BOOT_MAGIC cfg \<and> \<not> fst (validateCrc cfg pf p s))"
  by (auto simp: HSS_BootInit_validate_def Let_def validateCrc_eq call_def emit_def new_events_def
      split: prod.splits)

lemma HSS_BootInit_cases:
  assumes "HSS_BootInit cfg pf s = Inr (r, s')"
  obtains (disabled) "\<not> CONFIG_SERVICE_BOOT cfg" "r = False"
      "s' = emit (Log LOG_NORMAL ''Initializing Boot Image..'') s"
  | (run) res flag p s1 where "CONFIG_SERVICE_BOOT cfg"
      "HSS_BootInit_acquire cfg pf (emit (Log LOG_NORMAL ''Initializing Boot Image..'') s)
         = Inr (res, flag, p, s1)"
      "HSS_BootInit_validate cfg pf res flag p s1 = (r, s')"
  using assms unfolding HSS_BootInit_def Let_def
  by (auto split: if_splits sum.splits prod.splits)

subsection \<open>Decompression\<close>

lemma acquire_decompress:
  assumes acq: "HSS_BootInit_acquire cfg pf s = Inr (res, flag, p, s')"
    and dec: "Call_HSS_Decompress i out n \<in> set (new_events s s')"
  shows "\<exists>s1. CONFIG_COMPRESSION cfg
      \<and> call_getBootImageFunction cfg pf NULL s = (True, i, s1)
      \<and> i \<noteq> NULL
      \<and> magic (heap s1 i) = mHSS_COMPRESSED_MAGIC cfg
      \<and> out = CONFIG_SERVICE_BOOT_DDR_TARGET_ADDR cfg
      \<and> res
      \<and> p = (if n \<noteq> 0 then CONFIG_SERVICE_BOOT_DDR_TARGET_ADDR cfg else NULL)"
proof -
  obtain r0 p0 s1 where rd: "call_getBootImageFunction cfg pf NULL s = (r0, p0, s1)"
    by (metis prod_cases3)
  from call_getBootImageFunction_ext [OF rd]
  obtain t where t: "events s1 = events s @ t" and ta: "list_all reader_event t"
    by (auto simp: ext_by_def)
  have nd: "Call_HSS_Decompress i out n \<notin> set t"
    using ta by (auto simp: list_all_iff)
  show ?thesis
    using acq dec rd t nd unfolding HSS_BootInit_acquire_def Let_def new_events_def
    by (auto simp: call_def split: if_splits prod.splits)
qed

lemma validate_no_decompress:
  "HSS_BootInit_validate cfg pf res flag p s = (r, s') \<Longrightarrow>
   ext_by (\<lambda>e. \<forall>i out n. e \<noteq> Call_HSS_Decompress i out n) s s'"
  by (auto simp: HSS_BootInit_validate_def Let_def validateCrc_eq call_def emit_def ext_by_def
      split: prod.splits if_splits)

lemma ext_by_any: "ext_by P s s' \<Longrightarrow> ext_by (\<lambda>e. True) s s'"
  by (erule ext_by_mono) simp

subsection \<open>The readers\<close>

lemma MMC_GPT_lookup_fail_offset:
  "MMC_GPT_lookup pf s = (False, off, s') \<Longrightarrow> off = 0"
  unfolding MMC_GPT_lookup_def Let_def
  by (auto split: prod.splits if_splits)

lemma getBootImageFromMMC_generic:
  assumes run: "getBootImageFromMMC cfg pf pp s = (r, p, s')"
    and lookup: "(if CONFIG_SERVICE_BOOT_MMC_USE_GPT cfg
       then MMC_GPT_lookup pf
         (emit (Log LOG_NORMAL ''Attempting to read image header (%d bytes) ...'')
           (emit (Log LOG_NORMAL ''Preparing to copy from MMC to DDR ...'') s))
       else (True, 0,
         emit (Log LOG_NORMAL ''Attempting to read image header (%d bytes) ...'')
           (emit (Log LOG_NORMAL ''Preparing to copy from MMC to DDR ...'') s))) = (x, off, s3)"
  shows "(r, heap s', dev s') =
       generic_block_copy cfg (HSS_MMC_ReadBlock pf) (off * GPT_LBA_SIZE cfg) (heap s3, dev s3)
     \<and> (\<exists>ok post. events s' = events s3 @
           Call_HSS_MMC_ReadBlock (bootImage cfg) (off * GPT_LBA_SIZE cfg)
             (sizeof_HSS_BootImage cfg) ok # post)"
  using run unfolding getBootImageFromMMC_def Let_def lookup
  by (auto simp: MMC_ReadBlock_def copyBootImageToDDR_def printBootImageDetails_def
      verifyMagic_def call_def generic_block_copy_def emit_def split: prod.splits if_splits)

text \<open>
  The flash reader returns false whenever one of its reads has failed.
\<close>

lemma getBootImageFromSpiFlash_read_failure:
  assumes "getBootImageFromSpiFlash cfg pf pp s = (r, p, s')"
    and "Call_MSS_SYS_spi_copy d off n retval \<in> set (new_events s s')" and "retval \<noteq> 0"
  shows "\<not> r"
  using assms unfolding getBootImageFromSpiFlash_def Let_def
  by (auto simp: spiFlashReadBlock_def copyBootImageToDDR_def printBootImageDetails_def
      verifyMagic_def call_def emit_def new_events_def split: prod.splits if_splits)

subsection \<open>Evaluation on the concrete platform\<close>

lemmas model_defs = HSS_BootInit_def HSS_BootInit_acquire_def HSS_BootInit_validate_def
  call_getBootImageFunction_def getBootImageFromMMC_def getBootImageFromQSPI_def
  getBootImageFromPayload_def getBootImageFromSpiFlash_def MMC_GPT_lookup_def
  copyBootImageToDDR_def MMC_ReadBlock_def QSPI_ReadBlock_def spiFlashReadBlock_def
  printBootImageDetails_def validateCrc_def verifyMagic_def call_def emit_def new_events_def
  NULL_def Let_def

lemmas test_defs = test_config_def test_platform_def test_state_def plain_image_def
  compressed_image_def blank_def corrupt_image_def payload_plain_state_def
  payload_plain_final_def payload_corrupt_state_def payload_corrupt_final_def
  payload_compressed_state_def
  payload_compressed_final_def mmc_state_def mmc_lookup_failed_def mmc_acquired_def
  partial_copy_platform_def mmc_partial_final_def qspi_state_def
  header_read_fails_platform_def qspi_acquired_def qspi_final_def

section \<open>The claims\<close>

text \<open>
  C1. \<^verbatim>\<open>HSS_Register_Boot_Image\<close> is never called with a pointer that has not been
  validated. In every execution of \<^verbatim>\<open>HSS_BootInit\<close> that registers a pointer \<open>q\<close>,
  \<open>q\<close> is the pointer the first part of the function produced, it is not null, the
  magic of its header is \<^verbatim>\<open>mHSS_BOOT_MAGIC\<close>, \<^verbatim>\<open>validateCrc_\<close> returns true on
  it, and in the trace the registration comes right after the header checksum was computed
  and found equal to the stored one, with no registration before.
\<close>

theorem C1_registration_only_after_validation:
  assumes run: "HSS_BootInit cfg pf s = Inr (r, s')"
    and reg: "Call_HSS_Register_Boot_Image q \<in> set (new_events s s')"
  shows "\<exists>res flag s1 pre post.
      HSS_BootInit_acquire cfg pf (emit (Log LOG_NORMAL ''Initializing Boot Image..'') s)
        = Inr (res, flag, q, s1)
      \<and> q \<noteq> NULL
      \<and> magic (heap s1 q) = mHSS_BOOT_MAGIC cfg
      \<and> fst (validateCrc cfg pf q s1)
      \<and> new_events s s' =
          pre @ [Call_CRC32_calculate q (sizeof_HSS_BootImage cfg) (headerCrc (heap s1 q)),
                 Log LOG_NORMAL ''%s boot image passed CRC'',
                 Log LOG_NORMAL ''Boot image set name: %s'',
                 Call_HSS_Register_Boot_Image q] @ post
      \<and> (\<forall>q'. Call_HSS_Register_Boot_Image q' \<notin> set pre)"
  using run
proof (cases rule: HSS_BootInit_cases)
  case disabled
  from disabled(3) reg show ?thesis by simp
next
  case (run res flag p s1)
  let ?s0 = "emit (Log LOG_NORMAL ''Initializing Boot Image..'') s"
  let ?P = "\<lambda>e. \<forall>q'. e \<noteq> Call_HSS_Register_Boot_Image q'"
  have e0: "ext_by ?P s ?s0"
    by (rule ext_by_emit) simp_all
  have "ext_by acquire_event ?s0 s1"
    using run(2) by (rule HSS_BootInit_acquire_ext)
  then have e1: "ext_by ?P ?s0 s1"
    by (rule ext_by_mono) auto
  have e01: "ext_by ?P s s1"
    using e0 e1 by (rule ext_by_trans)
  show ?thesis
  proof (cases "p \<noteq> NULL \<and> magic (heap s1 p) = mHSS_BOOT_MAGIC cfg \<and> fst (validateCrc cfg pf p s1)")
    case False
    then have e2: "ext_by diagnostic_event s1 s'"
      using run(3) by (rule validate_ext_fail)
    have "new_events s s' = new_events s s1 @ new_events s1 s'"
      using e01 e2 by (rule new_events_trans)
    moreover have "Call_HSS_Register_Boot_Image q \<notin> set (new_events s s1)"
      using ext_by_events[OF e01] by (auto simp: list_all_iff)
    moreover have "Call_HSS_Register_Boot_Image q \<notin> set (new_events s1 s')"
      using ext_by_events[OF e2] by (auto simp: list_all_iff)
    ultimately show ?thesis using reg by simp
  next
    case True
    then obtain e where ev: "events s' = events s1 @
       [Call_CRC32_calculate p (sizeof_HSS_BootImage cfg) (headerCrc (heap s1 p)),
        Log LOG_NORMAL ''%s boot image passed CRC'',
        Log LOG_NORMAL ''Boot image set name: %s'',
        Call_HSS_Register_Boot_Image p,
        Log LOG_NORMAL ''Boot Image registered...'', e]" and le: "launch_event e"
      using validate_pass[OF _ _ _ run(3)] by blast
    have s1: "events s1 = events s @ new_events s s1"
      and pre: "\<forall>q'. Call_HSS_Register_Boot_Image q' \<notin> set (new_events s s1)"
      using ext_by_events[OF e01] by (auto simp: list_all_iff)
    have ne: "new_events s s' = new_events s s1 @
       [Call_CRC32_calculate p (sizeof_HSS_BootImage cfg) (headerCrc (heap s1 p)),
        Log LOG_NORMAL ''%s boot image passed CRC'',
        Log LOG_NORMAL ''Boot image set name: %s'',
        Call_HSS_Register_Boot_Image p] @ [Log LOG_NORMAL ''Boot Image registered...'', e]"
      unfolding new_events_def[of s s'] ev by (subst s1) simp
    have "Call_HSS_Register_Boot_Image q \<notin> set (new_events s s1)"
      using pre by simp
    moreover have "e \<noteq> Call_HSS_Register_Boot_Image q"
      using le by auto
    ultimately have "q = p" using reg unfolding ne by auto
    with True run(2) ne pre show ?thesis by blast
  qed
qed

theorem C1_witness:
  "HSS_BootInit test_config test_platform payload_plain_state = Inr (True, payload_plain_final)
   \<and> Call_HSS_Register_Boot_Image 0x20240000
        \<in> set (new_events payload_plain_state payload_plain_final)
   \<and> (\<exists>res flag s1 pre post.
        HSS_BootInit_acquire test_config test_platform
          (emit (Log LOG_NORMAL ''Initializing Boot Image..'') payload_plain_state)
          = Inr (res, flag, 0x20240000, s1)
        \<and> (0x20240000 :: addr) \<noteq> NULL
        \<and> magic (heap s1 0x20240000) = mHSS_BOOT_MAGIC test_config
        \<and> fst (validateCrc test_config test_platform 0x20240000 s1)
        \<and> new_events payload_plain_state payload_plain_final =
            pre @ [Call_CRC32_calculate 0x20240000 (sizeof_HSS_BootImage test_config)
                     (headerCrc (heap s1 0x20240000)),
                   Log LOG_NORMAL ''%s boot image passed CRC'',
                   Log LOG_NORMAL ''Boot image set name: %s'',
                   Call_HSS_Register_Boot_Image 0x20240000] @ post
        \<and> (\<forall>q'. Call_HSS_Register_Boot_Image q' \<notin> set pre))"
proof -
  have run: "HSS_BootInit test_config test_platform payload_plain_state
      = Inr (True, payload_plain_final)"
    by (simp add: model_defs test_defs)
  have reg: "Call_HSS_Register_Boot_Image 0x20240000
      \<in> set (new_events payload_plain_state payload_plain_final)"
    by (simp add: new_events_def test_defs)
  show ?thesis
    using run reg C1_registration_only_after_validation [OF run reg] by blast
qed

text \<open>
  C2. The claim: every stage of \<^verbatim>\<open>HSS_BootInit\<close> checks the boolean result of the
  stage before it, and once the reader has returned false neither the magic and CRC
  checks nor the registration are performed. The code at the input below: the card
  reader returns false, because its copy to DDR failed, after it has stored the target
  address in the caller's pointer; the validation block looks at the pointer only, so it
  validates the header found at the target, registers it, restarts the cores, and
  \<^verbatim>\<open>HSS_BootInit\<close> returns true.
\<close>

theorem C2_failed_reader_is_validated_and_registered:
  "fst (call_getBootImageFunction test_config partial_copy_platform NULL
          (emit (Log LOG_NORMAL ''Initializing Boot Image..'') mmc_state)) = False
   \<and> HSS_BootInit test_config partial_copy_platform mmc_state = Inr (True, mmc_partial_final)"
  by (simp add: model_defs test_defs)


text \<open>
  C4. A call of \<^verbatim>\<open>validateCrc_\<close> leaves \<open>headerCrc\<close> as it was before the call,
  whether the check passes or not, and changes no other member of the header: memory
  after the call is memory before it (and so are the devices).
\<close>

theorem C4_validateCrc_restores_header:
  "headerCrc (heap (snd (validateCrc cfg pf pImageHdr s)) pImageHdr) = headerCrc (heap s pImageHdr)
   \<and> heap (snd (validateCrc cfg pf pImageHdr s)) = heap s
   \<and> dev (snd (validateCrc cfg pf pImageHdr s)) = dev s"
  by (simp add: validateCrc_eq)

text \<open>
  C5. The claim: in each block-copy reader a failure of the block-read primitive, at the
  read of the header or at the copy, makes the reader return false, and after a failed
  first read no CRC check and no registration happen. The code at the input below: the
  QSPI reader drops the return value of its first read, so with a header read that
  reports failure it goes on, returns true, and \<^verbatim>\<open>HSS_BootInit\<close> checks the CRC
  and registers the image.
\<close>

theorem C5_qspi_header_read_failure_is_ignored:
  "getBootImageFromQSPI test_config header_read_fails_platform NULL qspi_state
     = (True, 0xA0000000, qspi_acquired)
   \<and> HSS_BootInit test_config header_read_fails_platform qspi_state = Inr (True, qspi_final)"
  by (simp add: model_defs test_defs)

text \<open>
  C6. With the partition table enabled, when the lookup in \<^verbatim>\<open>getBootImageFromMMC_\<close>
  fails (at whichever of its steps), the source offset stays 0, the header read at
  offset 0 is attempted, and the result of the reader, with memory and devices, is that
  of the generic two-step read at offset 0 run after the lookup: the failed lookup
  by itself decides nothing.
\<close>

theorem C6_partition_lookup_failure_falls_through:
  assumes gpt: "CONFIG_SERVICE_BOOT_MMC_USE_GPT cfg"
    and lookup: "MMC_GPT_lookup pf
        (emit (Log LOG_NORMAL ''Attempting to read image header (%d bytes) ...'')
          (emit (Log LOG_NORMAL ''Preparing to copy from MMC to DDR ...'') s)) = (False, off, s3)"
    and run: "getBootImageFromMMC cfg pf pp s = (r, p, s')"
  shows "off = 0
    \<and> (r, heap s', dev s') =
        generic_block_copy cfg (HSS_MMC_ReadBlock pf) 0 (heap s3, dev s3)
    \<and> (\<exists>ok. Call_HSS_MMC_ReadBlock (bootImage cfg) 0 (sizeof_HSS_BootImage cfg) ok
          \<in> set (new_events s s'))"
proof -
  let ?s2 = "emit (Log LOG_NORMAL ''Attempting to read image header (%d bytes) ...'')
          (emit (Log LOG_NORMAL ''Preparing to copy from MMC to DDR ...'') s)"
  have off: "off = 0"
    using lookup by (rule MMC_GPT_lookup_fail_offset)
  have "ext_by reader_event s ?s2"
    by (intro ext_by_emit ext_by_refl) (simp_all add: reader_log_def)
  with lookup have "ext_by reader_event s s3"
    by (rule MMC_GPT_lookup_ext)
  then obtain t where t: "events s3 = events s @ t"
    by (auto simp: ext_by_def)
  from getBootImageFromMMC_generic [OF run, of False off s3] gpt lookup off
  obtain ok post where
      g: "(r, heap s', dev s') =
            generic_block_copy cfg (HSS_MMC_ReadBlock pf) 0 (heap s3, dev s3)"
      and e: "events s' = events s3 @
           Call_HSS_MMC_ReadBlock (bootImage cfg) 0 (sizeof_HSS_BootImage cfg) ok # post"
    by auto
  have "Call_HSS_MMC_ReadBlock (bootImage cfg) 0 (sizeof_HSS_BootImage cfg) ok
          \<in> set (new_events s s')"
    unfolding new_events_def e t by simp
  with off g show ?thesis by blast
qed

theorem C6_witness:
  "CONFIG_SERVICE_BOOT_MMC_USE_GPT test_config
   \<and> MMC_GPT_lookup test_platform
        (emit (Log LOG_NORMAL ''Attempting to read image header (%d bytes) ...'')
          (emit (Log LOG_NORMAL ''Preparing to copy from MMC to DDR ...'') mmc_state))
        = (False, 0, mmc_lookup_failed)
   \<and> getBootImageFromMMC test_config test_platform NULL mmc_state
        = (True, 0xA0000000, mmc_acquired)
   \<and> (True, heap mmc_acquired, dev mmc_acquired) =
        generic_block_copy test_config (HSS_MMC_ReadBlock test_platform) 0
          (heap mmc_lookup_failed, dev mmc_lookup_failed)
   \<and> (\<exists>ok. Call_HSS_MMC_ReadBlock (bootImage test_config) 0
              (sizeof_HSS_BootImage test_config) ok
          \<in> set (new_events mmc_state mmc_acquired))"
proof -
  have gpt: "CONFIG_SERVICE_BOOT_MMC_USE_GPT test_config"
    by (simp add: test_config_def)
  have lookup: "MMC_GPT_lookup test_platform
        (emit (Log LOG_NORMAL ''Attempting to read image header (%d bytes) ...'')
          (emit (Log LOG_NORMAL ''Preparing to copy from MMC to DDR ...'') mmc_state))
        = (False, 0, mmc_lookup_failed)"
    by (simp add: model_defs test_defs)
  have run: "getBootImageFromMMC test_config test_platform NULL mmc_state
        = (True, 0xA0000000, mmc_acquired)"
    by (simp add: model_defs test_defs)
  show ?thesis
    using gpt lookup run C6_partition_lookup_failure_falls_through [OF gpt lookup run]
    by blast
qed

text \<open>
  C7. \<^verbatim>\<open>HSS_Decompress\<close> is called only when the reader has returned true and the
  magic of the header it produced is \<^verbatim>\<open>mHSS_COMPRESSED_MAGIC\<close> (so, the two magic
  values being different, not on a plain image); its input is that image and its output
  the DDR target. When it returns 0 the image pointer becomes null and
  \<^verbatim>\<open>HSS_BootInit\<close> returns false.
\<close>

theorem C7_decompression_gating:
  assumes run: "HSS_BootInit cfg pf s = Inr (r, s')"
    and dec: "Call_HSS_Decompress i out n \<in> set (new_events s s')"
  shows "\<exists>s1. CONFIG_COMPRESSION cfg
      \<and> call_getBootImageFunction cfg pf NULL
           (emit (Log LOG_NORMAL ''Initializing Boot Image..'') s) = (True, i, s1)
      \<and> magic (heap s1 i) = mHSS_COMPRESSED_MAGIC cfg
      \<and> (mHSS_BOOT_MAGIC cfg \<noteq> mHSS_COMPRESSED_MAGIC cfg \<longrightarrow>
            magic (heap s1 i) \<noteq> mHSS_BOOT_MAGIC cfg)
      \<and> out = CONFIG_SERVICE_BOOT_DDR_TARGET_ADDR cfg
      \<and> (n = 0 \<longrightarrow>
            r = False
            \<and> (\<exists>flag s2. HSS_BootInit_acquire cfg pf
                  (emit (Log LOG_NORMAL ''Initializing Boot Image..'') s)
                  = Inr (True, flag, NULL, s2)))"
  using run
proof (cases rule: HSS_BootInit_cases)
  case disabled
  from disabled(3) dec show ?thesis by simp
next
  case (run res flag p s1)
  let ?s0 = "emit (Log LOG_NORMAL ''Initializing Boot Image..'') s"
  let ?P = "\<lambda>e. \<forall>i out n. e \<noteq> Call_HSS_Decompress i out n"
  have e0: "ext_by ?P s ?s0"
    by (rule ext_by_emit) simp_all
  have e1: "ext_by acquire_event ?s0 s1"
    using run(2) by (rule HSS_BootInit_acquire_ext)
  have e2: "ext_by ?P s1 s'"
    using run(3) by (rule validate_no_decompress)
  have e01: "ext_by (\<lambda>e. True) s s1"
    using ext_by_any [OF e0] ext_by_any [OF e1] by (rule ext_by_trans)
  have "new_events s s' = new_events s s1 @ new_events s1 s'"
    using e01 e2 by (rule new_events_trans)
  moreover have "new_events s s1 = new_events s ?s0 @ new_events ?s0 s1"
    using e0 e1 by (rule new_events_trans)
  moreover have "Call_HSS_Decompress i out n \<notin> set (new_events s1 s')"
    using ext_by_events [OF e2] by (auto simp: list_all_iff)
  ultimately have "Call_HSS_Decompress i out n \<in> set (new_events ?s0 s1)"
    using dec by simp
  from acquire_decompress [OF run(2) this]
  obtain sr where sr: "CONFIG_COMPRESSION cfg"
      "call_getBootImageFunction cfg pf NULL ?s0 = (True, i, sr)"
      "magic (heap sr i) = mHSS_COMPRESSED_MAGIC cfg"
      "out = CONFIG_SERVICE_BOOT_DDR_TARGET_ADDR cfg" "res"
      "p = (if n \<noteq> 0 then CONFIG_SERVICE_BOOT_DDR_TARGET_ADDR cfg else NULL)"
    by blast
  have "r = False \<and> (\<exists>flag s2. HSS_BootInit_acquire cfg pf ?s0 = Inr (True, flag, NULL, s2))"
    if "n = 0"
  proof -
    from that sr(6) have "p = NULL" by simp
    with run(2,3) sr(5) show ?thesis by (auto simp: validate_null)
  qed
  with sr show ?thesis by auto
qed

theorem C7_witness:
  "HSS_BootInit test_config test_platform payload_compressed_state
     = Inr (False, payload_compressed_final)
   \<and> Call_HSS_Decompress 0x20240000 0xA0000000 0
        \<in> set (new_events payload_compressed_state payload_compressed_final)
   \<and> (\<exists>s1. CONFIG_COMPRESSION test_config
        \<and> call_getBootImageFunction test_config test_platform NULL
             (emit (Log LOG_NORMAL ''Initializing Boot Image..'') payload_compressed_state)
             = (True, 0x20240000, s1)
        \<and> magic (heap s1 0x20240000) = mHSS_COMPRESSED_MAGIC test_config
        \<and> magic (heap s1 0x20240000) \<noteq> mHSS_BOOT_MAGIC test_config
        \<and> (0xA0000000 :: addr) = CONFIG_SERVICE_BOOT_DDR_TARGET_ADDR test_config
        \<and> (\<exists>flag s2. HSS_BootInit_acquire test_config test_platform
              (emit (Log LOG_NORMAL ''Initializing Boot Image..'') payload_compressed_state)
              = Inr (True, flag, NULL, s2)))"
proof -
  have run: "HSS_BootInit test_config test_platform payload_compressed_state
      = Inr (False, payload_compressed_final)"
    by (simp add: model_defs test_defs)
  have dec: "Call_HSS_Decompress 0x20240000 0xA0000000 0
      \<in> set (new_events payload_compressed_state payload_compressed_final)"
    by (simp add: new_events_def test_defs)
  have ne: "mHSS_BOOT_MAGIC test_config \<noteq> mHSS_COMPRESSED_MAGIC test_config"
    by (simp add: test_config_def)
  show ?thesis
    using run dec ne C7_decompression_gating [OF run dec] by blast
qed

text \<open>
  C8. \<^verbatim>\<open>verifyMagic_\<close> returns true if and only if the magic of the header is
  \<^verbatim>\<open>mHSS_BOOT_MAGIC\<close> or \<^verbatim>\<open>mHSS_COMPRESSED_MAGIC\<close>, and it does not change memory.
\<close>

theorem C8_verifyMagic:
  "fst (verifyMagic cfg pBootImage s)
     = (magic (heap s pBootImage) = mHSS_BOOT_MAGIC cfg
        \<or> magic (heap s pBootImage) = mHSS_COMPRESSED_MAGIC cfg)
   \<and> heap (snd (verifyMagic cfg pBootImage s)) = heap s"
  by (simp add: verifyMagic_def)

text \<open>
  C9. Two calls of \<^verbatim>\<open>validateCrc_\<close> on the same header, one right after the other,
  return the same boolean.
\<close>

theorem C9_validateCrc_twice:
  "fst (validateCrc cfg pf pImageHdr (snd (validateCrc cfg pf pImageHdr s)))
     = fst (validateCrc cfg pf pImageHdr s)"
  by (simp add: validateCrc_eq)

text \<open>
  C10. Every reader that returns true has stored a pointer that is not null (the
  addresses of the configuration being addresses of memory). So the first part of
  \<^verbatim>\<open>HSS_BootInit\<close> reads the magic without fault, and the two error branches inside
  the decompression block, the one for a false result and the one for a null pointer, are
  never taken: neither of their messages is in the trace.
\<close>

theorem C10_inner_branches_unreachable:
  assumes valid: "valid_addresses cfg"
  shows "(\<forall>pp p s1. call_getBootImageFunction cfg pf pp s = (True, p, s1) \<longrightarrow> p \<noteq> NULL)
    \<and> (\<exists>res flag p s2.
          HSS_BootInit_acquire cfg pf s = Inr (res, flag, p, s2)
          \<and> Log LOG_ERROR ''Failed to get boot image, cannot decompress''
               \<notin> set (new_events s s2)
          \<and> Log LOG_ERROR ''Boot Image NULL, ignoring'' \<notin> set (new_events s s2))"
proof
  show "\<forall>pp p s1. call_getBootImageFunction cfg pf pp s = (True, p, s1) \<longrightarrow> p \<noteq> NULL"
    using valid by (auto simp: valid_addresses_def dest: reader_true_pointer)
next
  from HSS_BootInit_acquire_no_fault [OF valid]
  obtain res flag p s2 where acq: "HSS_BootInit_acquire cfg pf s = Inr (res, flag, p, s2)"
    by blast
  from ext_by_events [OF HSS_BootInit_acquire_ext [OF acq]]
  have "list_all acquire_event (new_events s s2)" by simp
  then have "Log LOG_ERROR ''Failed to get boot image, cannot decompress''
               \<notin> set (new_events s s2)
          \<and> Log LOG_ERROR ''Boot Image NULL, ignoring'' \<notin> set (new_events s s2)"
    by (auto simp: list_all_iff acquire_log_def reader_log_def)
  with acq show "\<exists>res flag p s2.
          HSS_BootInit_acquire cfg pf s = Inr (res, flag, p, s2)
          \<and> Log LOG_ERROR ''Failed to get boot image, cannot decompress''
               \<notin> set (new_events s s2)
          \<and> Log LOG_ERROR ''Boot Image NULL, ignoring'' \<notin> set (new_events s s2)"
    by blast
qed

theorem C10_witness:
  "valid_addresses test_config
   \<and> call_getBootImageFunction test_config test_platform NULL payload_compressed_state
        = (True, 0x20240000, payload_compressed_state)
   \<and> (0x20240000 :: addr) \<noteq> NULL
   \<and> (\<exists>res flag p s2.
          HSS_BootInit_acquire test_config test_platform payload_compressed_state
            = Inr (res, flag, p, s2)
          \<and> Log LOG_ERROR ''Failed to get boot image, cannot decompress''
               \<notin> set (new_events payload_compressed_state s2)
          \<and> Log LOG_ERROR ''Boot Image NULL, ignoring''
               \<notin> set (new_events payload_compressed_state s2))"
proof -
  have valid: "valid_addresses test_config"
    by (simp add: valid_addresses_def test_config_def NULL_def)
  have rd: "call_getBootImageFunction test_config test_platform NULL payload_compressed_state
        = (True, 0x20240000, payload_compressed_state)"
    by (simp add: model_defs test_defs)
  show ?thesis
    using valid rd C10_inner_branches_unreachable [OF valid, of test_platform payload_compressed_state]
    by blast
qed

end
